theory Spec2Isabelle
  imports Main "HOL-Library.Multiset"
begin

section \<open>Content documents\<close>

text \<open>
  A content document is an Mdx node of the data layer. The pages read
  \<^verbatim>\<open>node.fields.slug\<close>, \<^verbatim>\<open>node.frontmatter.title\<close>, \<^verbatim>\<open>node.frontmatter.date\<close>,
  \<^verbatim>\<open>node.frontmatter.type\<close>, \<^verbatim>\<open>node.excerpt\<close> and \<^verbatim>\<open>node.body\<close>. The frontmatter of
  the documents under content/blog gives a title and a date, and a type only for
  journals, so \<open>title\<close> and \<open>type\<close> are optional (\<open>fields'\<close> is
  \<^verbatim>\<open>fields\<close>). The date is the sort key of the queries; its type \<open>'d\<close> is any
  linearly ordered type (a timestamp, or the \<^verbatim>\<open>'2020-04-23 09:54:54'\<close> strings of
  the content files, whose order is the chronological one). Every document carries
  a date; what happens to a document without one is left open by the spec.
\<close>

record 'd mdx_frontmatter =
  title :: "string option"
  date :: 'd
  type :: "string option"

record mdx_fields =
  slug :: string

record 'd mdx =
  fields' :: mdx_fields
  frontmatter :: "'d mdx_frontmatter"
  excerpt :: string
  body :: string

section \<open>The index page's queries\<close>

text \<open>
  The two collections of the index page are two \<^verbatim>\<open>allMdx\<close> queries:
  \<^verbatim>\<open>
    posts: allMdx(
      sort: { fields: [frontmatter___date], order: DESC }
      filter: { frontmatter: { type: { ne: "journal" } } })
    journals: allMdx(
      sort: { fields: [frontmatter___date], order: DESC }
      filter: { frontmatter: { type: { eq: "journal" } } })
  \<close>
  The query operators belong to the data layer. \<^verbatim>\<open>eq\<close> keeps the nodes whose field
  is the given string, \<^verbatim>\<open>ne\<close> keeps all the others, the nodes without the field
  among them. The model is the result of a query the data layer runs; whether the
  data layer accepts the query for a given collection (it checks a query against a
  schema it infers from the nodes) is decided outside the sources and is not
  modelled, so the result type has no error value.
\<close>

datatype string_filter = Eq string | Ne string

fun matches :: "string_filter \<Rightarrow> string option \<Rightarrow> bool" where
  "matches (Eq v) field = (field = Some v)"
| "matches (Ne v) field = (field \<noteq> Some v)"

text \<open>
  \<^verbatim>\<open>sort: { fields: [frontmatter___date], order: DESC }\<close>: the nodes by date, most
  recent first. The data layer orders nodes with equal keys by their position in its
  input; that is an insertion sort whose element goes in front of the first node that
  is not more recent, the nodes taken from the last one to the first.
  \<open>newer_first a b\<close>: \<open>a\<close> may stand before \<open>b\<close>.
\<close>

abbreviation newer_first :: "('d::linorder) mdx \<Rightarrow> 'd mdx \<Rightarrow> bool" where
  "newer_first a b \<equiv> date (frontmatter b) \<le> date (frontmatter a)"

fun insert_desc :: "('d::linorder) mdx \<Rightarrow> 'd mdx list \<Rightarrow> 'd mdx list" where
  "insert_desc x [] = [x]"
| "insert_desc x (y # ys) =
     (if newer_first x y then x # y # ys else y # insert_desc x ys)"

definition sort_date_desc :: "('d::linorder) mdx list \<Rightarrow> 'd mdx list" where
  "sort_date_desc nodes = foldr insert_desc nodes []"

text \<open>The query filters first and sorts what is left.\<close>

definition allMdx :: "string_filter \<Rightarrow> ('d::linorder) mdx list \<Rightarrow> 'd mdx list" where
  "allMdx flt nodes =
     sort_date_desc (filter (\<lambda>n. matches flt (type (frontmatter n))) nodes)"

definition posts_query :: "('d::linorder) mdx list \<Rightarrow> 'd mdx list" where
  "posts_query nodes = allMdx (Ne ''journal'') nodes"

definition journals_query :: "('d::linorder) mdx list \<Rightarrow> 'd mdx list" where
  "journals_query nodes = allMdx (Eq ''journal'') nodes"

text \<open>\<open>classify\<close> is the pair of collections the index page receives.\<close>

definition classify :: "('d::linorder) mdx list \<Rightarrow> 'd mdx list \<times> 'd mdx list" where
  "classify documents = (posts_query documents, journals_query documents)"

section \<open>Markup\<close>

text \<open>
  What a component returns: the element tree of its JSX, without the style
  attributes. \<open>Link\<close> carries its target and its \<^verbatim>\<open>rel\<close>; \<open>Component\<close> is a child
  component that is not expanded (SEO, Bio, MDXRenderer, JournalWarning,
  NewsletterForm); \<open>RawHtml\<close> is \<^verbatim>\<open>dangerouslySetInnerHTML\<close>; \<open>Nothing\<close> is what
  JSX renders for \<^verbatim>\<open>false\<close> and \<^verbatim>\<open>null\<close>.
\<close>

datatype markup =
    Text string
  | Element string "markup list"
  | Link string "string option" "markup list"
  | Component string "markup list"
  | RawHtml string
  | Nothing

text \<open>\<^verbatim>\<open>{cond && <element/>}\<close> and \<^verbatim>\<open>{value}\<close> for a string that may be null.\<close>

definition jsx_and :: "bool \<Rightarrow> markup \<Rightarrow> markup" where
  "jsx_and cond m = (if cond then m else Nothing)"

definition jsx_string :: "string option \<Rightarrow> markup" where
  "jsx_string v = (case v of None \<Rightarrow> Nothing | Some s \<Rightarrow> Text s)"

text \<open>
  \<^verbatim>\<open>a || b\<close> on a string that may be missing: \<^verbatim>\<open>a\<close> unless it is null, undefined or
  the empty string.
\<close>

definition js_or :: "string option \<Rightarrow> string \<Rightarrow> string" where
  "js_or a b = (case a of None \<Rightarrow> b | Some s \<Rightarrow> if s = [] then b else s)"

text \<open>Reading a tree: its text, its elements of one tag, its links, its components.\<close>

fun text_of :: "markup \<Rightarrow> string" where
  "text_of (Text s) = s"
| "text_of (Element tag children) = concat (map text_of children)"
| "text_of (Link to rel children) = concat (map text_of children)"
| "text_of (Component name children) = []"
| "text_of (RawHtml html) = []"
| "text_of Nothing = []"

fun elements :: "string \<Rightarrow> markup \<Rightarrow> markup list" where
  "elements t (Text s) = []"
| "elements t (Element tag children) =
     (if tag = t then [Element tag children] else []) @ concat (map (elements t) children)"
| "elements t (Link to rel children) = concat (map (elements t) children)"
| "elements t (Component name children) = []"
| "elements t (RawHtml html) = []"
| "elements t Nothing = []"

text \<open>Every link of a tree, in document order: target, \<^verbatim>\<open>rel\<close> and text.\<close>

fun links :: "markup \<Rightarrow> (string \<times> string option \<times> string) list" where
  "links (Text s) = []"
| "links (Element tag children) = concat (map links children)"
| "links (Link to rel children) =
     (to, rel, concat (map text_of children)) # concat (map links children)"
| "links (Component name children) = []"
| "links (RawHtml html) = []"
| "links Nothing = []"

fun components :: "markup \<Rightarrow> string list" where
  "components (Text s) = []"
| "components (Element tag children) = concat (map components children)"
| "components (Link to rel children) = concat (map components children)"
| "components (Component name children) = [name]"
| "components (RawHtml html) = []"
| "components Nothing = []"

section \<open>The layout\<close>

text \<open>
  \<^verbatim>\<open>Layout({ location, title, children, wide })\<close>: the site title as a heading (an
  \<^verbatim>\<open>h1\<close> on the root path, an \<^verbatim>\<open>h3\<close> elsewhere), the page and the newsletter form.
  \<open>path_prefix\<close> is the build's \<^verbatim>\<open>__PATH_PREFIX__\<close>, \<open>pathname\<close> is
  \<^verbatim>\<open>location.pathname\<close>; \<^verbatim>\<open>wide\<close> only sets a width.
\<close>

definition Layout :: "string \<Rightarrow> string \<Rightarrow> string \<Rightarrow> markup list \<Rightarrow> markup" where
  "Layout path_prefix pathname site_title children =
     (let rootPath = path_prefix @ ''/'';
          header =
            (if pathname = rootPath
             then Element ''h1'' [Link ''/'' None [Text site_title]]
             else Element ''h3'' [Link ''/'' None [Text site_title]])
      in Element ''div'' ([header] @ children @ [Component ''NewsletterForm'' []]))"

section \<open>The index page\<close>

text \<open>
  \<^verbatim>\<open>BlogIndex({ data, location })\<close> lists \<^verbatim>\<open>data.posts.edges\<close> and, in the
  \<^verbatim>\<open>Journals\<close> box, \<^verbatim>\<open>data.journals.edges\<close>. Both lists print
  \<^verbatim>\<open>node.frontmatter.title || node.fields.slug\<close> as the text of a link to the
  document. The query returns the date formatted (\<^verbatim>\<open>MMMM DD, YYYY\<close>) by the data
  layer: \<open>fmt\<close> is that formatting.
\<close>

definition post_entry :: "('d \<Rightarrow> string) \<Rightarrow> 'd mdx \<Rightarrow> markup" where
  "post_entry fmt node =
     (let shown = js_or (title (frontmatter node)) (slug (fields' node))
      in Element ''div''
           [Element ''h3'' [Link (slug (fields' node)) None [Text shown]],
            Element ''small'' [Text (fmt (date (frontmatter node)))],
            Element ''p'' [RawHtml (excerpt node)]])"

definition journal_entry :: "'d mdx \<Rightarrow> markup" where
  "journal_entry node =
     (let shown = js_or (title (frontmatter node)) (slug (fields' node))
      in Element ''li'' [Element ''h3'' [Link (slug (fields' node)) None [Text shown]]])"

definition Journals :: "'d mdx list \<Rightarrow> markup" where
  "Journals journals =
     Element ''div''
       [Element ''h2'' [Text ''Journals''],
        Component ''JournalWarning'' [],
        Element ''ul'' (map journal_entry journals)]"

definition BlogIndex ::
  "('d \<Rightarrow> string) \<Rightarrow> string \<Rightarrow> string \<Rightarrow> string \<Rightarrow> 'd mdx list \<Rightarrow> 'd mdx list \<Rightarrow> markup" where
  "BlogIndex fmt path_prefix pathname site_title posts journals =
     Layout path_prefix pathname site_title
       ([Component ''SEO'' [], Component ''Bio'' []]
        @ map (post_entry fmt) posts
        @ [Journals journals])"

section \<open>The post page\<close>

text \<open>
  \<^verbatim>\<open>BlogPostTemplate({ data, pageContext, location })\<close>: \<open>post\<close> is \<^verbatim>\<open>data.mdx\<close>,
  \<^verbatim>\<open>previous\<close> and \<^verbatim>\<open>next\<close> come with the page context (\<open>next'\<close> is \<^verbatim>\<open>next\<close>). The two
  arrows of the link texts are the UTF-8 bytes of U+2190 and U+2192.
\<close>

record 'd page_context =
  previous :: "'d mdx option"
  next' :: "'d mdx option"

definition left_arrow :: string where
  "left_arrow = [CHR 0xE2, CHR 0x86, CHR 0x90]"

definition right_arrow :: string where
  "right_arrow = [CHR 0xE2, CHR 0x86, CHR 0x92]"

definition BlogPostTemplate ::
  "('d \<Rightarrow> string) \<Rightarrow> string \<Rightarrow> string \<Rightarrow> string \<Rightarrow> 'd mdx \<Rightarrow> 'd page_context \<Rightarrow> markup" where
  "BlogPostTemplate fmt path_prefix pathname site_title post pageContext =
     (let isJournal = (type (frontmatter post) = Some ''journal'')
      in Layout path_prefix pathname site_title
           [Component ''SEO'' [],
            Element ''h1''
              [Text (if isJournal then ''Journal: '' else ''''),
               jsx_string (title (frontmatter post))],
            jsx_and (\<not> isJournal) (Element ''p'' [Text (fmt (date (frontmatter post)))]),
            jsx_and isJournal (Element ''div'' [Component ''JournalWarning'' []]),
            Component ''MDXRenderer'' [],
            Element ''hr'' [],
            Component ''Bio'' [],
            Element ''ul''
              [Element ''li''
                 [case previous pageContext of
                    None \<Rightarrow> Nothing
                  | Some p \<Rightarrow>
                      Link (slug (fields' p)) (Some ''prev'')
                        [Text (left_arrow @ '' ''), jsx_string (title (frontmatter p))]],
               Element ''li''
                 [case next' pageContext of
                    None \<Rightarrow> Nothing
                  | Some n \<Rightarrow>
                      Link (slug (fields' n)) (Some ''next'')
                        [jsx_string (title (frontmatter n)), Text ('' '' @ right_arrow)]]]])"

section \<open>Page creation\<close>

text \<open>
  Modelled from the spec: the step that creates one page per document and computes
  its page context (gatsby-node.js) is not among the sources; only the template that
  reads \<^verbatim>\<open>pageContext.previous\<close> and \<^verbatim>\<open>pageContext.next\<close> is. The spec, section 4.1:
  \<open>adjacency\<close> takes the sorted posts and the position of the current document;
  \<^verbatim>\<open>previous\<close> is the document at \<^verbatim>\<open>index + 1\<close> if it exists, else absent;
  \<^verbatim>\<open>next\<close> is the document at \<^verbatim>\<open>index - 1\<close> if it exists, else absent. The index is
  a natural number, so no document is at \<^verbatim>\<open>index - 1\<close> when the index is 0.
\<close>

definition document_at :: "'a list \<Rightarrow> nat \<Rightarrow> 'a option" where
  "document_at xs i = (if i < length xs then Some (xs ! i) else None)"

definition adjacency :: "'d mdx list \<Rightarrow> nat \<Rightarrow> 'd mdx option \<times> 'd mdx option" where
  "adjacency posts index =
     (document_at posts (index + 1),
      if index = 0 then None else document_at posts (index - 1))"

text \<open>
  Modelled from the spec: which documents get neighbours (gatsby-node.js, not among
  the sources). The spec, sections 3 and 4.1: adjacency is computed only within the
  posts partition; journal entries have no previous and no next. Every post gets the
  context \<open>adjacency\<close> computes at its position, every journal an empty one.
\<close>

definition page_contexts :: "('d::linorder) mdx list \<Rightarrow> ('d mdx \<times> 'd page_context) list" where
  "page_contexts documents =
     (let (posts, journals) = classify documents
      in map (\<lambda>i. (posts ! i,
                    \<lparr>previous = fst (adjacency posts i), next' = snd (adjacency posts i)\<rparr>))
           [0..<length posts]
         @ map (\<lambda>j. (j, \<lparr>previous = None, next' = None\<rparr>)) journals)"

section \<open>The documents of the repository\<close>

text \<open>
  The frontmatter of the four documents among the sources, with the date
  \<^verbatim>\<open>'2020-04-23 09:54:54'\<close> written as the number 20200423095454.
\<close>

definition what_is_rafter :: "int mdx" where
  "what_is_rafter =
     \<lparr>fields' = \<lparr>slug = ''/what-is-rafter/''\<rparr>,
      frontmatter = \<lparr>title = Some ''What is Rafter?'', date = 20200423095454, type = None\<rparr>,
      excerpt = ''Great question!'', body = ''''\<rparr>"

definition building_commands_integration :: "int mdx" where
  "building_commands_integration =
     \<lparr>fields' = \<lparr>slug = ''/building-commands-integration/''\<rparr>,
      frontmatter =
        \<lparr>title = Some ''Building Commands Integration'', date = 20200428091929,
         type = Some ''journal''\<rparr>,
      excerpt = '''', body = ''''\<rparr>"

definition a_spark :: "int mdx" where
  "a_spark =
     \<lparr>fields' = \<lparr>slug = ''/a-spark/''\<rparr>,
      frontmatter =
        \<lparr>title = Some ''A Spark: Why am I building Rafter?'', date = 20200416100000,
         type = None\<rparr>,
      excerpt = '''', body = ''''\<rparr>"

definition tracking_queued_job_chains :: "int mdx" where
  "tracking_queued_job_chains =
     \<lparr>fields' = \<lparr>slug = ''/tracking-queued-job-chains/''\<rparr>,
      frontmatter =
        \<lparr>title = Some ''Tracking Queued Job Chains in Laravel'', date = 20200505145218,
         type = None\<rparr>,
      excerpt = '''', body = ''''\<rparr>"

definition content_blog :: "int mdx list" where
  "content_blog =
     [what_is_rafter, building_commands_integration, a_spark, tracking_queued_job_chains]"

text \<open>
  A journal without a title, and the collection with it: two journals, the second
  one shown by its slug.
\<close>

definition untitled_journal :: "int mdx" where
  "untitled_journal =
     \<lparr>fields' = \<lparr>slug = ''/untitled-journal/''\<rparr>,
      frontmatter = \<lparr>title = None, date = 20200501080000, type = Some ''journal''\<rparr>,
      excerpt = '''', body = ''''\<rparr>"

definition with_untitled_journal :: "int mdx list" where
  "with_untitled_journal = content_blog @ [untitled_journal]"

section \<open>The sort\<close>

lemma set_insert_desc: "set (insert_desc x ys) = insert x (set ys)"
  by (induction ys) auto

lemma set_sort_date_desc: "set (sort_date_desc xs) = set xs"
  unfolding sort_date_desc_def by (induction xs) (simp_all add: set_insert_desc)

lemma mset_insert_desc: "mset (insert_desc x ys) = add_mset x (mset ys)"
  by (induction ys) simp_all

lemma mset_sort_date_desc: "mset (sort_date_desc xs) = mset xs"
  unfolding sort_date_desc_def by (induction xs) (simp_all add: mset_insert_desc)

text \<open>Inserting into a list that is in order leaves it in order.\<close>

lemma sorted_insert_desc:
  "sorted_wrt newer_first ys \<Longrightarrow> sorted_wrt newer_first (insert_desc x ys)"
  by (induction ys) (auto simp: set_insert_desc)

lemma sorted_sort_date_desc: "sorted_wrt newer_first (sort_date_desc xs)"
  unfolding sort_date_desc_def by (induction xs) (simp_all add: sorted_insert_desc)

text \<open>
  An inserted node only passes nodes that are strictly more recent, so it stays in
  front of every node of its own date.
\<close>

lemma filter_insert_desc:
  "filter (\<lambda>y. date (frontmatter y) = k) (insert_desc x ys) =
     (if date (frontmatter x) = k then x # filter (\<lambda>y. date (frontmatter y) = k) ys
      else filter (\<lambda>y. date (frontmatter y) = k) ys)"
  by (induction ys) auto

lemma filter_sort_date_desc:
  "filter (\<lambda>y. date (frontmatter y) = k) (sort_date_desc xs) =
   filter (\<lambda>y. date (frontmatter y) = k) xs"
  unfolding sort_date_desc_def by (induction xs) (simp_all add: filter_insert_desc)

lemmas classify_defs = classify_def posts_query_def journals_query_def allMdx_def

section \<open>Classification\<close>

text \<open>
  C1. A document is among the journals exactly when it is a document of the
  collection whose \<^verbatim>\<open>frontmatter.type\<close> is \<^verbatim>\<open>"journal"\<close>; it is among the posts
  exactly when it is a document of the collection with any other type or none. In
  particular a document of the collection without a type is among the posts.
\<close>

theorem classify_by_type:
  "(d \<in> set (snd (classify documents))) =
     (d \<in> set documents \<and> type (frontmatter d) = Some ''journal'')
   \<and> (d \<in> set (fst (classify documents))) =
     (d \<in> set documents \<and> type (frontmatter d) \<noteq> Some ''journal'')
   \<and> (d \<in> set documents \<and> type (frontmatter d) = None
        \<longrightarrow> d \<in> set (fst (classify documents)))"
  by (simp add: classify_defs set_sort_date_desc)

theorem classify_by_type_witness:
  "what_is_rafter \<in> set content_blog \<and> type (frontmatter what_is_rafter) = None
   \<and> what_is_rafter \<in> set (fst (classify content_blog))
   \<and> what_is_rafter \<notin> set (snd (classify content_blog))"
  using classify_by_type [of what_is_rafter content_blog]
  by (simp add: content_blog_def what_is_rafter_def)

text \<open>
  C5. The posts and the journals together are the documents of the collection, each
  as often as the collection has it, and no document is in both.
\<close>

theorem classify_complete:
  "mset (fst (classify documents)) + mset (snd (classify documents)) = mset documents
   \<and> set (fst (classify documents)) \<inter> set (snd (classify documents)) = {}"
  by (auto simp: classify_defs set_sort_date_desc mset_sort_date_desc)

text \<open>
  C2. Both results are in descending order of \<^verbatim>\<open>frontmatter.date\<close>: of two documents
  that are neighbours in the posts, or in the journals, the first one's date is not
  before the second one's.
\<close>

theorem classify_sorted:
  "(Suc i < length (fst (classify documents)) \<longrightarrow>
      date (frontmatter (fst (classify documents) ! Suc i))
        \<le> date (frontmatter (fst (classify documents) ! i)))
   \<and> (Suc i < length (snd (classify documents)) \<longrightarrow>
      date (frontmatter (snd (classify documents) ! Suc i))
        \<le> date (frontmatter (snd (classify documents) ! i)))"
  using sorted_sort_date_desc
  by (auto simp: classify_defs sorted_wrt_iff_nth_less)

lemmas example_defs = with_untitled_journal_def content_blog_def what_is_rafter_def
  building_commands_integration_def a_spark_def tracking_queued_job_chains_def
  untitled_journal_def

lemma classify_content_blog:
  "classify content_blog =
     ([tracking_queued_job_chains, what_is_rafter, a_spark],
      [building_commands_integration])"
  by (simp add: classify_defs sort_date_desc_def example_defs)

lemma classify_with_untitled_journal:
  "classify with_untitled_journal =
     ([tracking_queued_job_chains, what_is_rafter, a_spark],
      [untitled_journal, building_commands_integration])"
  by (simp add: classify_defs sort_date_desc_def example_defs)

theorem classify_sorted_witness:
  "Suc 0 < length (fst (classify with_untitled_journal))
   \<and> date (frontmatter (fst (classify with_untitled_journal) ! Suc 0))
        \<le> date (frontmatter (fst (classify with_untitled_journal) ! 0))
   \<and> Suc 0 < length (snd (classify with_untitled_journal))
   \<and> date (frontmatter (snd (classify with_untitled_journal) ! Suc 0))
        \<le> date (frontmatter (snd (classify with_untitled_journal) ! 0))"
  using classify_sorted [of 0 with_untitled_journal]
  by (simp add: classify_with_untitled_journal)

text \<open>
  C6. The sort is stable: for every date \<open>k\<close>, the posts of date \<open>k\<close> stand in the
  result in the order the collection has them, and so do the journals of date \<open>k\<close>.
\<close>

theorem classify_stable:
  "filter (\<lambda>d. date (frontmatter d) = k) (fst (classify documents)) =
     filter (\<lambda>d. date (frontmatter d) = k)
       (filter (\<lambda>d. type (frontmatter d) \<noteq> Some ''journal'') documents)
   \<and> filter (\<lambda>d. date (frontmatter d) = k) (snd (classify documents)) =
     filter (\<lambda>d. date (frontmatter d) = k)
       (filter (\<lambda>d. type (frontmatter d) = Some ''journal'') documents)"
  by (simp add: classify_defs filter_sort_date_desc)

section \<open>Neighbours\<close>

text \<open>
  C3. At a valid index of the posts, \<^verbatim>\<open>previous\<close> is the document at \<^verbatim>\<open>index + 1\<close> if
  there is one and absent otherwise, \<^verbatim>\<open>next\<close> is the document at \<^verbatim>\<open>index - 1\<close> if
  there is one and absent otherwise; at index 0 \<^verbatim>\<open>next\<close> is absent, at the last index
  \<^verbatim>\<open>previous\<close> is absent. This holds of every sequence of posts, the sorted ones
  among them.
\<close>

theorem adjacency_neighbours:
  assumes "index < length posts"
  shows "fst (adjacency posts index) =
           (if index + 1 < length posts then Some (posts ! (index + 1)) else None)
       \<and> snd (adjacency posts index) =
           (if 0 < index then Some (posts ! (index - 1)) else None)
       \<and> snd (adjacency posts 0) = None
       \<and> fst (adjacency posts (length posts - 1)) = None"
  using assms by (auto simp: adjacency_def document_at_def)

theorem adjacency_neighbours_witness:
  "1 < length (fst (classify content_blog))
   \<and> adjacency (fst (classify content_blog)) 1 =
       (Some a_spark, Some tracking_queued_job_chains)
   \<and> adjacency (fst (classify content_blog)) 0 = (Some what_is_rafter, None)
   \<and> adjacency (fst (classify content_blog)) 2 = (None, Some what_is_rafter)"
  using adjacency_neighbours [of 1 "fst (classify content_blog)"]
    adjacency_neighbours [of 0 "fst (classify content_blog)"]
    adjacency_neighbours [of 2 "fst (classify content_blog)"]
  by (simp add: classify_content_blog prod_eq_iff)

section \<open>What the post page shows\<close>

text \<open>
  The links of a post page: the layout's link home, then a \<^verbatim>\<open>rel="prev"\<close> link if the
  page context has a \<^verbatim>\<open>previous\<close>, then a \<^verbatim>\<open>rel="next"\<close> link if it has a \<^verbatim>\<open>next\<close>.
  The template does not look at the document's type here.
\<close>

lemma links_BlogPostTemplate:
  "links (BlogPostTemplate fmt path_prefix pathname site_title post ctx) =
     (''/'', None, site_title)
     # (case previous ctx of
          None \<Rightarrow> []
        | Some p \<Rightarrow>
            [(slug (fields' p), Some ''prev'',
              left_arrow @ '' '' @ (case title (frontmatter p) of None \<Rightarrow> [] | Some t \<Rightarrow> t))])
     @ (case next' ctx of
          None \<Rightarrow> []
        | Some n \<Rightarrow>
            [(slug (fields' n), Some ''next'',
              (case title (frontmatter n) of None \<Rightarrow> [] | Some t \<Rightarrow> t) @ '' '' @ right_arrow)])"
  by (simp add: BlogPostTemplate_def Layout_def Let_def jsx_and_def jsx_string_def
      split: option.split)

text \<open>
  C4. A page that page creation makes for a journal has an empty page context, and
  its only link is the layout's link home: no previous link and no next link.
\<close>

theorem journal_page_no_neighbours:
  assumes "(post, ctx) \<in> set (page_contexts documents)"
    and "type (frontmatter post) = Some ''journal''"
  shows "previous ctx = None \<and> next' ctx = None
       \<and> links (BlogPostTemplate fmt path_prefix pathname site_title post ctx) =
           [(''/'', None, site_title)]"
proof -
  have "post \<notin> set (fst (classify documents))"
    using assms(2) by (simp add: classify_defs set_sort_date_desc)
  then have "ctx = \<lparr>previous = None, next' = None\<rparr>"
    using assms(1) by (auto simp: page_contexts_def case_prod_beta)
  then show ?thesis
    by (simp add: links_BlogPostTemplate)
qed

theorem journal_page_no_neighbours_witness:
  "(building_commands_integration, \<lparr>previous = None, next' = None\<rparr>)
       \<in> set (page_contexts content_blog)
   \<and> type (frontmatter building_commands_integration) = Some ''journal''
   \<and> links (BlogPostTemplate (\<lambda>d. ''April 28, 2020'') []
              ''/building-commands-integration/'' ''Rafter''
              building_commands_integration \<lparr>previous = None, next' = None\<rparr>) =
        [(''/'', None, ''Rafter'')]"
proof -
  have in_pages: "(building_commands_integration, \<lparr>previous = None, next' = None\<rparr>)
       \<in> set (page_contexts content_blog)"
    by (simp add: page_contexts_def classify_content_blog)
  have is_journal: "type (frontmatter building_commands_integration) = Some ''journal''"
    by (simp add: building_commands_integration_def)
  show ?thesis
    using in_pages is_journal journal_page_no_neighbours [OF in_pages is_journal] by simp
qed

text \<open>
  C9. On a post page the heading is the title with \<^verbatim>\<open>Journal: \<close> in front exactly for
  a journal (on the root path the layout's own \<^verbatim>\<open>h1\<close> with the site title comes
  first); the box with the journal warning is there exactly for a journal; the
  paragraph with the date is there exactly for a document that is not a journal.
\<close>

theorem post_page_by_type:
  "map text_of
       (elements ''h1'' (BlogPostTemplate fmt path_prefix pathname site_title post ctx)) =
     (if pathname = path_prefix @ ''/'' then [site_title] else [])
     @ [(if type (frontmatter post) = Some ''journal'' then ''Journal: '' else [])
        @ (case title (frontmatter post) of None \<Rightarrow> [] | Some t \<Rightarrow> t)]
   \<and> (Element ''div'' [Component ''JournalWarning'' []]
        \<in> set (elements ''div''
                 (BlogPostTemplate fmt path_prefix pathname site_title post ctx)))
      = (type (frontmatter post) = Some ''journal'')
   \<and> (''JournalWarning''
        \<in> set (components (BlogPostTemplate fmt path_prefix pathname site_title post ctx)))
      = (type (frontmatter post) = Some ''journal'')
   \<and> elements ''p'' (BlogPostTemplate fmt path_prefix pathname site_title post ctx) =
       (if type (frontmatter post) \<noteq> Some ''journal''
        then [Element ''p'' [Text (fmt (date (frontmatter post)))]] else [])"
  by (simp add: BlogPostTemplate_def Layout_def Let_def jsx_and_def jsx_string_def
      split: option.split)

section \<open>What the index page shows\<close>

lemma links_post_entries:
  "concat (map (links \<circ> post_entry fmt) posts) =
     map (\<lambda>n. (slug (fields' n), None, js_or (title (frontmatter n)) (slug (fields' n))))
       posts"
  by (induction posts) (simp_all add: post_entry_def)

lemma links_journal_entries:
  "concat (map (links \<circ> journal_entry) journals) =
     map (\<lambda>n. (slug (fields' n), None, js_or (title (frontmatter n)) (slug (fields' n))))
       journals"
  by (induction journals) (simp_all add: journal_entry_def)

text \<open>
  C10. After the layout's link home, the links of the index page are one link per
  post and then one per journal, in the order of the two lists, each to the
  document's slug; its text is \<^verbatim>\<open>frontmatter.title\<close> when the document has a title
  that is not empty, and the slug otherwise.
\<close>

theorem index_titles:
  "links (BlogIndex fmt path_prefix pathname site_title posts journals) =
     (''/'', None, site_title)
     # map (\<lambda>n. (slug (fields' n), None,
                 case title (frontmatter n) of
                   None \<Rightarrow> slug (fields' n)
                 | Some t \<Rightarrow> if t = [] then slug (fields' n) else t))
         (posts @ journals)"
  by (simp add: BlogIndex_def Layout_def Journals_def links_post_entries
      links_journal_entries js_or_def)

end
